theory Spec2Isabelle
  imports Main "HOL-Library.Word"
begin

section \<open>Data model of wrtcion.go\<close>

text \<open>
  The Go program keeps one \<open>RTCPeer\<close> per process. Its \<open>Connections\<close> map holds
  pointers to \<open>Connection\<close> objects, and the same pointer is held by the callbacks of the
  pion peer connection, so the model has an explicit store: \<open>conns\<close> maps an address
  (a natural number) to the object, the registry maps a remote address to a pointer, and
  \<open>fresh\<close> is the next unused address. Every \<open>Connection\<close> is created with
  \<open>local\<close> pointing to the \<open>RTCPeer\<close> whose method created it, so the field is not
  stored; \<open>audioRcvr\<close> is never assigned and the mutex has no sequential content.

  The pion library, \<open>net/http\<close> and \<open>encoding/json\<close> are outside the repository.
  Each of their calls is one constructor of \<open>extcall\<close>; the environment says which
  calls return an error, and what the calls that produce data return.
\<close>

type_synonym error = string
type_synonym SDP = string
type_synonym ICECandidate = string
type_synonym DataChannel = string

datatype ConnectionState = Standby | Ringing | Answering | InCall | Closed

datatype ConnectionMode =
  TextConnection | VoiceConnectionSimplex | VoiceConnectionDuplex | VideoConnectionSimplex

text \<open>\<open>SignalAction\<close> is an \<open>int\<close> read from JSON: \<open>InvalidAction\<close> stands for every
  value other than 0, 1 and 2, which the \<open>default\<close> branch of the handler receives.\<close>

datatype SignalAction = Offer | Answer | Refuse | InvalidAction

datatype page_result = Page "8 word list" "64 word" | PageErr error

text \<open>An ogg reader is the list of results its next calls of \<open>ParseNextPage\<close> give;
  at the end of the file the call returns \<open>io.EOF\<close>.\<close>

type_synonym OggReader = "page_result list"

record audioSender =
  track :: bool
  rtp :: bool
  ogg :: "OggReader option"

text \<open>What the model keeps of a \<open>webrtc.PeerConnection\<close>: the descriptions applied to
  it, the number of transceivers added and the output file of the registered track
  handler. A call that returns an error is taken to leave the peer connection as it
  was.\<close>

record PeerConnection =
  remoteDescription :: "SDP option"
  localDescription :: "SDP option"
  transceivers :: nat
  onTrack :: "string option"

record Connection =
  peer :: PeerConnection
  remoteAddr :: string
  isInitiator :: bool
  mode :: ConnectionMode
  state :: ConnectionState
  pendingCandidates :: "ICECandidate list"
  dataChan :: "DataChannel option"
  audioSndr :: "audioSender option"

record RTCPeer =
  listenAddr :: string
  Connections :: "string \<rightharpoonup> nat"
  conns :: "nat \<Rightarrow> Connection"
  fresh :: nat

record SignalSDP =
  SDP :: SDP
  Action :: SignalAction
  Mode :: ConnectionMode
  Origin :: string

record SignalCandidate =
  Candidate :: string
  CandidateOrigin :: string

datatype body = SDPBody SignalSDP | CandidateBody SignalCandidate

text \<open>The observable effects, in the order the program performs them. An event records
  the call (a log line, a post, a call into pion or the media writer), whether or not the
  call then returns an error.\<close>

datatype event =
    Log string
  | Posted string body
  | RemoteDescriptionCall nat SDP
  | PeerClosed nat
  | DataChanClosed nat
  | TextSent nat string
  | AddCandidateCall nat string
  | SampleWritten nat "8 word list" "64 word"
  | RTPWritten nat "8 word list"
  | WriterClosed
  | AppStopped

datatype extcall =
    NewPeerConnection
  | CreateDataChannel
  | NewTrackLocalStaticSample
  | AddTrack
  | os_Open
  | oggreader_NewWith
  | AddTransceiverFromKind
  | oggwriter_New
  | CreateOffer
  | CreateAnswer
  | SetLocalDescription
  | SetRemoteDescription
  | json_Marshal
  | http_Post
  | Body_Close
  | peer_Close
  | SendText
  | AddICECandidate
  | Writer_Close
  | candidate_Post nat
  | candidate_Body_Close nat
  | WriteSample nat
  | WriteRTP nat

text \<open>\<open>fails\<close> gives the error a call returns (\<open>None\<close>: it succeeds); the index of
  \<open>candidate_Post\<close>, \<open>WriteSample\<close> and \<open>WriteRTP\<close> counts the calls made by one
  handler or loop. \<open>localSDP\<close> is the description \<open>CreateOffer\<close> and
  \<open>CreateAnswer\<close> produce, \<open>audioFile\<close> the content of the audio source.\<close>

record Env =
  fails :: "extcall \<Rightarrow> error option"
  localSDP :: SDP
  audioFile :: OggReader

section \<open>Helpers\<close>

fun joinSp :: "string list \<Rightarrow> string" where
  "joinSp [] = []"
| "joinSp [x] = x"
| "joinSp (x # y # ys) = x @ '' '' @ joinSp (y # ys)"

text \<open>\<open>log.Println\<close>: the operands separated by spaces, one line.\<close>

definition Println :: "string list \<Rightarrow> event" where
  "Println xs = Log (joinSp xs)"

definition upd :: "RTCPeer \<Rightarrow> nat \<Rightarrow> (Connection \<Rightarrow> Connection) \<Rightarrow> RTCPeer" where
  "upd w p f = w\<lparr>conns := (conns w)(p := f (conns w p))\<rparr>"

definition audioSource :: string where
  "audioSource = ''resources/sources/audio.ogg''"

definition outputPath :: string where
  "outputPath = ''resources/results/''"

section \<open>Creating and closing a Connection\<close>

text \<open>\<open>newConnection\<close> (lines 263-291). The parameter \<open>remote\<close> is not stored: the
  composite literal sets \<open>local\<close>, \<open>state\<close>, \<open>mode\<close> and \<open>pendingCandidates\<close>
  only, so \<open>remoteAddr\<close> starts as the empty string.\<close>

definition newConnection ::
  "Env \<Rightarrow> RTCPeer \<Rightarrow> string \<Rightarrow> ConnectionMode \<Rightarrow> error + (RTCPeer \<times> nat)" where
  "newConnection env w remote m =
     (case fails env NewPeerConnection of
        Some e \<Rightarrow> Inl e
      | None \<Rightarrow>
          let p = fresh w;
              c = \<lparr>peer = \<lparr>remoteDescription = None, localDescription = None,
                           transceivers = 0, onTrack = None\<rparr>,
                   remoteAddr = [], isInitiator = False, mode = m, state = Standby,
                   pendingCandidates = [], dataChan = None, audioSndr = None\<rparr>
          in Inr (w\<lparr>conns := (conns w)(p := c), fresh := Suc p\<rparr>, p))"

text \<open>\<open>Connection.Close\<close> (lines 766-778): the result is the new world, the events and
  the error returned.\<close>

definition Close :: "Env \<Rightarrow> RTCPeer \<Rightarrow> nat \<Rightarrow> RTCPeer \<times> event list \<times> error option" where
  "Close env w p =
     (let c = conns w p in
      if state c = Closed then (w, [], None)
      else
        let w1 = upd w p (\<lambda>c. c\<lparr>state := Closed\<rparr>);
            ev1 = (case dataChan c of None \<Rightarrow> [] | Some d \<Rightarrow> [DataChanClosed p]);
            err = fails env peer_Close;
            ev2 = [PeerClosed p, Log (''connection to '' @ remoteAddr c @ '' closed'')];
            w2 = w1\<lparr>Connections := (Connections w1)(remoteAddr c := None)\<rparr>
        in (w2, ev1 @ ev2, err))"

text \<open>\<open>RTCPeer.HangUp\<close> (lines 754-764).\<close>

definition HangUp :: "Env \<Rightarrow> RTCPeer \<Rightarrow> string \<Rightarrow> RTCPeer \<times> event list" where
  "HangUp env w remote =
     (case Connections w remote of
        None \<Rightarrow> (w, [Println [''not connected to'', remote]])
      | Some p \<Rightarrow>
          (case Close env w p of
             (w', evs, None) \<Rightarrow> (w', evs)
           | (w', evs, Some e) \<Rightarrow>
               (w', evs @ [Println [''unable to close peer connection: '', e]])))"

section \<open>Candidates\<close>

text \<open>\<open>Connection.signalCandidate\<close> (lines 293-310). The error of \<open>json.Marshal\<close> is
  overwritten by the next assignment and a struct of two strings always marshals, so the
  body posted is the signal. \<open>i\<close> numbers the call for the environment.\<close>

definition signalCandidate ::
  "Env \<Rightarrow> nat \<Rightarrow> RTCPeer \<Rightarrow> nat \<Rightarrow> ICECandidate \<Rightarrow> event list \<times> error option" where
  "signalCandidate env i w p c =
     (let signal = \<lparr>Candidate = c, CandidateOrigin = listenAddr w\<rparr>;
          ev = [Posted (''http://'' @ remoteAddr (conns w p) @ ''/candidate'')
                  (CandidateBody signal)]
      in case fails env (candidate_Post i) of
           Some e \<Rightarrow> (ev, Some e)
         | None \<Rightarrow>
             (case fails env (candidate_Body_Close i) of
                Some e \<Rightarrow> (ev, Some e)
              | None \<Rightarrow> (ev, None)))"

text \<open>\<open>Connection.handleICECandidate\<close> (lines 312-326); \<open>None\<close> is the nil candidate.
  The third component of the result is the value of an uncaught \<open>panic\<close>, which ends the
  process.\<close>

definition handleICECandidate ::
  "Env \<Rightarrow> RTCPeer \<Rightarrow> nat \<Rightarrow> ICECandidate option \<Rightarrow> RTCPeer \<times> event list \<times> error option" where
  "handleICECandidate env w p copt =
     (case copt of
        None \<Rightarrow> (w, [], None)
      | Some c \<Rightarrow>
          (case remoteDescription (peer (conns w p)) of
             None \<Rightarrow>
               (upd w p (\<lambda>k. k\<lparr>pendingCandidates := pendingCandidates k @ [c]\<rparr>), [], None)
           | Some desc \<Rightarrow>
               (case signalCandidate env 0 w p c of
                  (ev, Some e) \<Rightarrow> (w, ev, Some e)
                | (ev, None) \<Rightarrow> (w, ev, None))))"

text \<open>\<open>RTCPeer.httpHandleCandidate\<close> (lines 328-349); the argument is the decoded
  request body.\<close>

definition httpHandleCandidate ::
  "Env \<Rightarrow> RTCPeer \<Rightarrow> error + SignalCandidate \<Rightarrow> RTCPeer \<times> event list" where
  "httpHandleCandidate env w req =
     (case req of
        Inl e \<Rightarrow> (w, [Println [''couldn't parse candidate: '', e]])
      | Inr signal \<Rightarrow>
          (case Connections w (CandidateOrigin signal) of
             None \<Rightarrow>
               (w, [Println [''got a candidate from'', CandidateOrigin signal,
                             ''but wasn't expecting one'']])
           | Some p \<Rightarrow>
               (case fails env AddICECandidate of
                  Some e \<Rightarrow>
                    (w, [AddCandidateCall p (Candidate signal),
                         Println [''couldn't initialize candidate: '', e]])
                | None \<Rightarrow> (w, [AddCandidateCall p (Candidate signal)]))))"

section \<open>Media attachment\<close>

text \<open>\<open>Connection.getAudio\<close> (lines 557-601): adds the audio transceiver, creates the
  output file and registers the track handler that will run \<open>saveToDisk\<close>.\<close>

definition getAudio :: "Env \<Rightarrow> RTCPeer \<Rightarrow> nat \<Rightarrow> RTCPeer \<times> error option" where
  "getAudio env w p =
     (case fails env AddTransceiverFromKind of
        Some e \<Rightarrow> (w, Some e)
      | None \<Rightarrow>
          let w1 = upd w p
                (\<lambda>k. k\<lparr>peer := (peer k)\<lparr>transceivers := Suc (transceivers (peer k))\<rparr>\<rparr>);
              fname = outputPath @ ''/'' @ remoteAddr (conns w1 p) @ ''.opus''
          in case fails env oggwriter_New of
               Some e \<Rightarrow> (w1, Some e)
             | None \<Rightarrow>
                 (upd w1 p (\<lambda>k. k\<lparr>peer := (peer k)\<lparr>onTrack := Some fname\<rparr>\<rparr>), None))"

text \<open>\<open>Connection.loadAudio\<close> (lines 603-626).\<close>

definition loadAudio :: "Env \<Rightarrow> RTCPeer \<Rightarrow> nat \<Rightarrow> string \<Rightarrow> RTCPeer \<times> error option" where
  "loadAudio env w p fname =
     (let w0 = upd w p (\<lambda>k. k\<lparr>audioSndr := Some \<lparr>track = False, rtp = False, ogg = None\<rparr>\<rparr>)
      in case fails env NewTrackLocalStaticSample of
           Some e \<Rightarrow> (w0, Some e)
         | None \<Rightarrow>
             let w1 = upd w0 p
                   (\<lambda>k. k\<lparr>audioSndr := Some \<lparr>track = True, rtp = False, ogg = None\<rparr>\<rparr>)
             in case fails env AddTrack of
                  Some e \<Rightarrow> (w1, Some e)
                | None \<Rightarrow>
                    let w2 = upd w1 p
                          (\<lambda>k. k\<lparr>audioSndr := Some \<lparr>track = True, rtp = True, ogg = None\<rparr>\<rparr>)
                    in case fails env os_Open of
                         Some e \<Rightarrow> (w2, Some e)
                       | None \<Rightarrow>
                           (case fails env oggreader_NewWith of
                              Some e \<Rightarrow> (w2, Some e)
                            | None \<Rightarrow>
                                (upd w2 p
                                   (\<lambda>k. k\<lparr>audioSndr :=
                                      Some \<lparr>track = True, rtp = True,
                                            ogg = Some (audioFile env)\<rparr>\<rparr>),
                                 None)))"

section \<open>Inbound session descriptions\<close>

text \<open>Lines 358-367 of \<open>RTCPeer.httpHandleSDP\<close>: the Connection registered under the
  origin, or a new one, created and registered before the action is looked at.\<close>

definition lookupOrCreate :: "Env \<Rightarrow> RTCPeer \<Rightarrow> SignalSDP \<Rightarrow> error + (RTCPeer \<times> nat)" where
  "lookupOrCreate env w signal =
     (case Connections w (Origin signal) of
        Some p \<Rightarrow> Inr (w, p)
      | None \<Rightarrow>
          (case newConnection env w (Origin signal) (Mode signal) of
             Inl e \<Rightarrow> Inl e
           | Inr (w1, p) \<Rightarrow>
               Inr (w1\<lparr>Connections := (Connections w1)(Origin signal \<mapsto> p)\<rparr>, p)))"

text \<open>Lines 369-399, the switch on the action: the boolean says whether the handler goes
  on after the switch.\<close>

definition actionGuard :: "RTCPeer \<Rightarrow> nat \<Rightarrow> SignalSDP \<Rightarrow> RTCPeer \<times> event list \<times> bool" where
  "actionGuard w p signal =
     (let c = conns w p in
      case Action signal of
        Offer \<Rightarrow>
          if state c \<noteq> Standby
          then (w, [Println [''answering incoming call from'', Origin signal,
                             ''but we are busy'']], False)
          else (upd w p (\<lambda>k. k\<lparr>state := Answering, remoteAddr := Origin signal\<rparr>),
                [Println [''incoming call from '', Origin signal]], True)
      | Answer \<Rightarrow>
          if state c \<noteq> Ringing
          then (w, [Println [''answer from'', Origin signal, ''but we weren't calling'']],
                False)
          else (w, [Println [''answer from '', remoteAddr c]], True)
      | Refuse \<Rightarrow>
          if state c \<noteq> Ringing
          then (w, [Println [''refusal from'', Origin signal, ''but we weren't calling'']],
                False)
          else (upd w p (\<lambda>k. k\<lparr>state := Standby\<rparr>),
                [Println [Origin signal, ''appears to be busy'']], False)
      | InvalidAction \<Rightarrow>
          (w, [Println [Origin signal, ''appears to be having problems communicating'']],
           False))"

text \<open>Lines 401-408, the switch on the mode of the Connection; the error of
  \<open>getAudio\<close> is dropped.\<close>

definition attachReceiver :: "Env \<Rightarrow> RTCPeer \<Rightarrow> nat \<Rightarrow> SignalSDP \<Rightarrow> RTCPeer" where
  "attachReceiver env w p signal =
     (case mode (conns w p) of
        VoiceConnectionSimplex \<Rightarrow>
          if Action signal = Offer then fst (getAudio env w p) else w
      | VoiceConnectionDuplex \<Rightarrow> fst (getAudio env w p)
      | _ \<Rightarrow> w)"

text \<open>Lines 411-430, after \<open>SetRemoteDescription\<close> returned the error \<open>e\<close>.\<close>

definition sendRefuse :: "Env \<Rightarrow> RTCPeer \<Rightarrow> SignalSDP \<Rightarrow> error \<Rightarrow> event list" where
  "sendRefuse env w signal e =
     (let answer = \<lparr>SDP = [], Action = Refuse, Mode = TextConnection, Origin = listenAddr w\<rparr>
      in Println [''couldn't set remote sdp: '', e] #
         (case fails env json_Marshal of
            Some e1 \<Rightarrow> [Println [''unable to marshal sdp answer: '', e1]]
          | None \<Rightarrow>
              Posted (''http://'' @ Origin signal @ ''/sdp'') (SDPBody answer) #
              (case fails env http_Post of
                 Some e2 \<Rightarrow> [Println [''unable to send sdp answer: '', e2]]
               | None \<Rightarrow>
                   (case fails env Body_Close of
                      Some e3 \<Rightarrow> [Println [''http error on close: '', e3]]
                    | None \<Rightarrow> []))))"

text \<open>Lines 433-466: the answer of the answering side; the boolean says whether the
  handler goes on to the candidates.\<close>

definition sendAnswer :: "Env \<Rightarrow> RTCPeer \<Rightarrow> nat \<Rightarrow> RTCPeer \<times> event list \<times> bool" where
  "sendAnswer env w p =
     (if state (conns w p) \<noteq> Answering then (w, [], True)
      else
        case fails env CreateAnswer of
          Some e \<Rightarrow> (w, [Println [''unable to create sdp answer: '', e]], False)
        | None \<Rightarrow>
            let answer = \<lparr>SDP = localSDP env, Action = Answer, Mode = TextConnection,
                          Origin = listenAddr w\<rparr>
            in case fails env json_Marshal of
                 Some e \<Rightarrow> (w, [Println [''unable to marshal sdp answer: '', e]], False)
               | None \<Rightarrow>
                   let post = Posted (''http://'' @ remoteAddr (conns w p) @ ''/sdp'')
                                (SDPBody answer)
                   in case fails env http_Post of
                        Some e \<Rightarrow>
                          (w, [post, Println [''unable to send sdp answer: '', e]], False)
                      | None \<Rightarrow>
                          (case fails env Body_Close of
                             Some e \<Rightarrow>
                               (w, [post, Println [''http error on close: '', e]], False)
                           | None \<Rightarrow>
                               (case fails env SetLocalDescription of
                                  Some e \<Rightarrow>
                                    (w, [post, Println [''unable to set local sdp'', e]],
                                     False)
                                | None \<Rightarrow>
                                    (upd w p (\<lambda>k. k\<lparr>peer := (peer k)
                                        \<lparr>localDescription := Some (SDP answer)\<rparr>\<rparr>),
                                     [post], True))))"

text \<open>Lines 471-476, the loop over \<open>pendingCandidates\<close>: the events, and the error that
  ended the loop. The buffer itself is only read.\<close>

fun flush ::
  "Env \<Rightarrow> nat \<Rightarrow> RTCPeer \<Rightarrow> nat \<Rightarrow> ICECandidate list \<Rightarrow> event list \<times> error option" where
  "flush env i w p [] = ([], None)"
| "flush env i w p (c # cs) =
     (case signalCandidate env i w p c of
        (ev, Some e) \<Rightarrow> (ev @ [Println [''unable to signal remote conn: '', e]], Some e)
      | (ev, None) \<Rightarrow>
          (case flush env (Suc i) w p cs of (evs, r) \<Rightarrow> (ev @ evs, r)))"

text \<open>\<open>RTCPeer.httpHandleSDP\<close> (lines 351-478); the argument is the decoded request
  body.\<close>

definition httpHandleSDP :: "Env \<Rightarrow> RTCPeer \<Rightarrow> error + SignalSDP \<Rightarrow> RTCPeer \<times> event list" where
  "httpHandleSDP env w req =
     (case req of
        Inl e \<Rightarrow> (w, [Println [''couldn't parse signal message from json: '', e]])
      | Inr signal \<Rightarrow>
          (case lookupOrCreate env w signal of
             Inl e \<Rightarrow> (w, [Println [''couldn't create new connection:'', e]])
           | Inr (w1, p) \<Rightarrow>
               (case actionGuard w1 p signal of
                  (w2, ev, False) \<Rightarrow> (w2, ev)
                | (w2, ev, True) \<Rightarrow>
                    let w3 = attachReceiver env w2 p signal;
                        ev1 = ev @ [RemoteDescriptionCall p (SDP signal)]
                    in case fails env SetRemoteDescription of
                         Some e \<Rightarrow> (w3, ev1 @ sendRefuse env w3 signal e)
                       | None \<Rightarrow>
                           let w4 = upd w3 p (\<lambda>k. k\<lparr>peer := (peer k)
                                      \<lparr>remoteDescription := Some (SDP signal)\<rparr>\<rparr>)
                           in case sendAnswer env w4 p of
                                (w5, ev2, False) \<Rightarrow> (w5, ev1 @ ev2)
                              | (w5, ev2, True) \<Rightarrow>
                                  (case flush env 0 w5 p (pendingCandidates (conns w5 p)) of
                                     (ev3, Some e) \<Rightarrow> (w5, ev1 @ ev2 @ ev3)
                                   | (ev3, None) \<Rightarrow>
                                       (upd w5 p (\<lambda>k. k\<lparr>state := InCall\<rparr>),
                                        ev1 @ ev2 @ ev3)))))"

section \<open>Dialing\<close>

text \<open>The label \<open>fail\<close> of \<open>RTCPeer.Ring\<close> (lines 733-735), reached with the events
  logged so far.\<close>

definition Ring_fail ::
  "Env \<Rightarrow> RTCPeer \<Rightarrow> nat \<Rightarrow> event list \<Rightarrow> RTCPeer \<times> event list \<times> nat option" where
  "Ring_fail env w p evs = (case Close env w p of (w', cev, err) \<Rightarrow> (w', evs @ cev, None))"

text \<open>\<open>RTCPeer.Ring\<close> (lines 661-736): the result is the new world, the events and the
  Connection returned (\<open>None\<close> is nil). The Connection is registered under \<open>remote\<close>
  at line 679, before the error of \<open>CreateDataChannel\<close> is looked at; its
  \<open>remoteAddr\<close> is assigned at line 716.\<close>

definition Ring ::
  "Env \<Rightarrow> RTCPeer \<Rightarrow> string \<Rightarrow> ConnectionMode \<Rightarrow> RTCPeer \<times> event list \<times> nat option" where
  "Ring env w remote m =
     (case Connections w remote of
        Some q \<Rightarrow> (w, [Println [''you are already connected to'', remote]], None)
      | None \<Rightarrow>
          (case newConnection env w remote m of
             Inl e \<Rightarrow> (w, [Println [''couldn't create new connection:'', e]], None)
           | Inr (w1, p) \<Rightarrow>
               let derr = fails env CreateDataChannel;
                   w2 = upd w1 p (\<lambda>k. k\<lparr>isInitiator := True,
                          dataChan := (case derr of None \<Rightarrow> Some ''data'' | Some e \<Rightarrow> None)\<rparr>);
                   w3 = w2\<lparr>Connections := (Connections w2)(remote \<mapsto> p)\<rparr>
               in case derr of
                    Some e \<Rightarrow>
                      Ring_fail env w3 p [Println [''unable to create data channel: '', e]]
                  | None \<Rightarrow>
                      (case (case m of
                               VoiceConnectionSimplex \<Rightarrow> loadAudio env w3 p audioSource
                             | VoiceConnectionDuplex \<Rightarrow> loadAudio env w3 p audioSource
                             | _ \<Rightarrow> (w3, None)) of
                         (w4, Some e) \<Rightarrow>
                           Ring_fail env w4 p
                             [Println [''can't start voice call, problem loading audio file:'',
                                       e]]
                       | (w4, None) \<Rightarrow>
                           (case fails env CreateOffer of
                              Some e \<Rightarrow>
                                Ring_fail env w4 p [Println [''unable to create offer: '', e]]
                            | None \<Rightarrow>
                                let offer = \<lparr>SDP = localSDP env, Action = Offer, Mode = m,
                                             Origin = listenAddr w4\<rparr>
                                in case fails env SetLocalDescription of
                                     Some e \<Rightarrow>
                                       Ring_fail env w4 p
                                         [Println [''unable to set local description: '', e]]
                                   | None \<Rightarrow>
                                       let w5 = upd w4 p (\<lambda>k. k\<lparr>peer := (peer k)
                                                  \<lparr>localDescription := Some (SDP offer)\<rparr>\<rparr>)
                                       in case fails env json_Marshal of
                                            Some e \<Rightarrow>
                                              Ring_fail env w5 p
                                                [Println [''unable to marshal offer into json: '',
                                                          e]]
                                          | None \<Rightarrow>
                                              let w6 = upd w5 p
                                                    (\<lambda>k. k\<lparr>remoteAddr := remote,
                                                            state := Ringing\<rparr>);
                                                  ev = [Println [''dialing'', remote],
                                                        Posted (''http://'' @ remote @ ''/sdp'')
                                                          (SDPBody offer)]
                                              in case fails env http_Post of
                                                   Some e \<Rightarrow>
                                                     Ring_fail env w6 p
                                                       (ev @ [Println [''unable to dial'', remote,
                                                                       ''conn: '', e]])
                                                 | None \<Rightarrow>
                                                     (case fails env Body_Close of
                                                        Some e \<Rightarrow>
                                                          Ring_fail env w6 p
                                                            (ev @ [Println
                                                               [''unable to close response: '', e]])
                                                      | None \<Rightarrow> (w6, ev, Some p))))))"

section \<open>Text messages and the command line\<close>

definition nilDereference :: error where
  "nilDereference = ''runtime error: invalid memory address or nil pointer dereference''"

text \<open>\<open>Connection.SendMsg\<close> (lines 738-746) on a pointer that may be nil: reading
  \<open>conn.state\<close> through a nil pointer panics, and so does \<open>SendText\<close> on a nil data
  channel. The world is not changed; the result is the events and the panic.\<close>

definition SendMsg :: "Env \<Rightarrow> RTCPeer \<Rightarrow> nat option \<Rightarrow> string \<Rightarrow> event list \<times> error option" where
  "SendMsg env w conn msg =
     (case conn of
        None \<Rightarrow> ([], Some nilDereference)
      | Some p \<Rightarrow>
          if state (conns w p) \<noteq> InCall
          then ([Println [''but there was nobody listening...'']], None)
          else
            (case dataChan (conns w p) of
               None \<Rightarrow> ([], Some nilDereference)
             | Some d \<Rightarrow>
                 (case fails env SendText of
                    Some e \<Rightarrow>
                      ([TextSent p msg,
                        Println [''couldn't send message to '', remoteAddr (conns w p),
                                 '': '', e]], None)
                  | None \<Rightarrow> ([TextSent p msg], None))))"

text \<open>\<open>RTCPeer.SendMsgToAll\<close> (lines 748-752) and \<open>RTCPeer.CloseAll\<close> (lines
  784-790) range over the map; Go leaves the order open, so the keys come as a list, and
  an entry deleted before it is reached is not visited.\<close>

fun SendMsgToAll ::
  "Env \<Rightarrow> RTCPeer \<Rightarrow> string list \<Rightarrow> string \<Rightarrow> event list \<times> error option" where
  "SendMsgToAll env w [] msg = ([], None)"
| "SendMsgToAll env w (k # ks) msg =
     (case Connections w k of
        None \<Rightarrow> SendMsgToAll env w ks msg
      | Some p \<Rightarrow>
          (case SendMsg env w (Some p) msg of
             (ev, Some e) \<Rightarrow> (ev, Some e)
           | (ev, None) \<Rightarrow>
               (case SendMsgToAll env w ks msg of (evs, r) \<Rightarrow> (ev @ evs, r))))"

fun CloseAll :: "Env \<Rightarrow> RTCPeer \<Rightarrow> string list \<Rightarrow> RTCPeer \<times> event list" where
  "CloseAll env w [] = (w, [])"
| "CloseAll env w (k # ks) =
     (case Connections w k of
        None \<Rightarrow> CloseAll env w ks
      | Some p \<Rightarrow>
          (case Close env w p of
             (w1, ev, err) \<Rightarrow>
               (case CloseAll env w1 ks of
                  (w2, evs) \<Rightarrow>
                    (w2, ev @ (case err of
                                 None \<Rightarrow> []
                               | Some e \<Rightarrow> [Println [''unable to close peer'', k,
                                                      ''connection: '', e]]) @ evs))))"

text \<open>\<open>strings.SplitN(s, " ", n)\<close> for \<open>n \<ge> 0\<close>: at most \<open>n\<close> pieces, the last one
  the unsplit rest.\<close>

fun SplitN :: "string \<Rightarrow> nat \<Rightarrow> string list" where
  "SplitN s 0 = []"
| "SplitN s (Suc 0) = [s]"
| "SplitN s (Suc (Suc n)) =
     (if CHR '' '' \<in> set s
      then takeWhile (\<lambda>c. c \<noteq> CHR '' '') s #
           SplitN (tl (dropWhile (\<lambda>c. c \<noteq> CHR '' '') s)) (Suc n)
      else [s])"

text \<open>\<open>parseCommand\<close> (lines 17-60); \<open>order\<close> is the order of the map ranges, the
  third component of the result the panic that ended the call.\<close>

definition parseCommand ::
  "Env \<Rightarrow> string list \<Rightarrow> RTCPeer \<Rightarrow> string \<Rightarrow> RTCPeer \<times> event list \<times> error option" where
  "parseCommand env order w cmd =
     (case SplitN cmd 3 of
        [] \<Rightarrow> (w, [], Some ''runtime error: index out of range'')
      | a0 # rest \<Rightarrow>
          if a0 = ''/help'' then
            (w, [Println [''enter a command or send a message to all connected peers:''],
                 Println [''commands available:''],
                 Println [''/chat <address>''],
                 Println [''/call <address>''],
                 Println [''/end <address>''],
                 Println [''/msg <address> <message>'']], None)
          else if a0 = ''/chat'' then
            (case rest of
               [] \<Rightarrow> (w, [Println [''remote address missing'']], None)
             | a1 # r \<Rightarrow>
                 (case Ring env w a1 TextConnection of (w', ev, c) \<Rightarrow> (w', ev, None)))
          else if a0 = ''/call'' then
            (case rest of
               [] \<Rightarrow> (w, [Println [''remote address missing'']], None)
             | a1 # r \<Rightarrow>
                 (case Ring env w a1 VoiceConnectionSimplex of (w', ev, c) \<Rightarrow> (w', ev, None)))
          else if a0 = ''/end'' then
            (case rest of
               [] \<Rightarrow> (w, [Println [''specify whom'']], None)
             | a1 # r \<Rightarrow> (case HangUp env w a1 of (w', ev) \<Rightarrow> (w', ev, None)))
          else if a0 = ''/msg'' then
            (case rest of
               [] \<Rightarrow> (w, [Println [''specify whom'']], None)
             | a1 # r \<Rightarrow>
                 let conn = Connections w a1;
                     ev = (case conn of
                             None \<Rightarrow> [Println [''no such destination'']]
                           | Some p \<Rightarrow> [])
                 in case SendMsg env w conn cmd of (ev', pnc) \<Rightarrow> (w, ev @ ev', pnc))
          else if a0 = ''/exit'' then
            (case CloseAll env w order of (w', ev) \<Rightarrow> (w', ev @ [AppStopped], None))
          else
            (case SendMsgToAll env w order cmd of (ev, pnc) \<Rightarrow> (w, ev, pnc)))"

section \<open>Media streaming loops\<close>






section \<open>The signalling transport between two processes\<close>

text \<open>\<open>NewRTCPeer\<close> (lines 251-261) registers \<open>httpHandleSDP\<close> under \<open>/sdp\<close> and
  \<open>httpHandleCandidate\<close> under \<open>/candidate\<close> of the listen address. \<open>deliver\<close> hands
  the posts among the events of one process to the handlers of the process \<open>x\<close> they
  are addressed to, in order. A handler first decodes the body (lines 330 and 353), and
  the decoder is not part of the repository: \<open>dec\<close> gives the error it returns for a
  posted body (\<open>None\<close>: the body decodes to the signal that was posted), so that a body
  the decoder rejects reaches the handler as a decode error.\<close>

fun deliver ::
  "Env \<Rightarrow> (body \<Rightarrow> error option) \<Rightarrow> RTCPeer \<Rightarrow> event list \<Rightarrow> RTCPeer \<times> event list" where
  "deliver env dec x [] = (x, [])"
| "deliver env dec x (Posted url (SDPBody s) # evs) =
     (if url = ''http://'' @ listenAddr x @ ''/sdp''
      then (case httpHandleSDP env x
                   (case dec (SDPBody s) of Some e \<Rightarrow> Inl e | None \<Rightarrow> Inr s) of
              (x1, ev) \<Rightarrow> (case deliver env dec x1 evs of (x2, ev') \<Rightarrow> (x2, ev @ ev')))
      else deliver env dec x evs)"
| "deliver env dec x (Posted url (CandidateBody c) # evs) =
     (if url = ''http://'' @ listenAddr x @ ''/candidate''
      then (case httpHandleCandidate env x
                   (case dec (CandidateBody c) of Some e \<Rightarrow> Inl e | None \<Rightarrow> Inr c) of
              (x1, ev) \<Rightarrow> (case deliver env dec x1 evs of (x2, ev') \<Rightarrow> (x2, ev @ ev')))
      else deliver env dec x evs)"
| "deliver env dec x (e # evs) = deliver env dec x evs"

text \<open>The candidates among the posts of a trace, in order.\<close>

fun candidatesPosted :: "event list \<Rightarrow> ICECandidate list" where
  "candidatesPosted [] = []"
| "candidatesPosted (Posted url (CandidateBody c) # evs) = Candidate c # candidatesPosted evs"
| "candidatesPosted (e # evs) = candidatesPosted evs"

text \<open>The descriptions among the posts of a trace, with the address posted to.\<close>

fun descriptionsPosted :: "event list \<Rightarrow> (string \<times> SignalSDP) list" where
  "descriptionsPosted [] = []"
| "descriptionsPosted (Posted url (SDPBody s) # evs) = (url, s) # descriptionsPosted evs"
| "descriptionsPosted (e # evs) = descriptionsPosted evs"

section \<open>Initial state and sample environments\<close>

text \<open>\<open>NewRTCPeer\<close> (lines 251-261): an empty registry. No Connection is allocated yet;
  the store holds the zero value everywhere.\<close>

definition zeroConnection :: Connection where
  "zeroConnection =
     \<lparr>peer = \<lparr>remoteDescription = None, localDescription = None, transceivers = 0,
               onTrack = None\<rparr>,
      remoteAddr = [], isInitiator = False, mode = TextConnection, state = Standby,
      pendingCandidates = [], dataChan = None, audioSndr = None\<rparr>"

definition NewRTCPeer :: "string \<Rightarrow> RTCPeer" where
  "NewRTCPeer listen =
     \<lparr>listenAddr = listen, Connections = Map.empty, conns = (\<lambda>p. zeroConnection), fresh = 0\<rparr>"

text \<open>An environment in which every external call succeeds, and the same environment
  with one call failing.\<close>

definition allSucceed :: Env where
  "allSucceed = \<lparr>fails = (\<lambda>c. None), localSDP = ''v=0'', audioFile = []\<rparr>"

definition failing :: "extcall \<Rightarrow> Env" where
  "failing c = allSucceed\<lparr>fails := (\<lambda>c'. if c' = c then Some ''failed'' else None)\<rparr>"

section \<open>Sample runs\<close>

text \<open>Worlds reached by running the operations above, used to instantiate the
  theorems: a peer at \<open>here\<close> dials \<open>there\<close>; two candidates are discovered while it
  rings; the call is then answered, refused or hung up.\<close>

definition here :: string where
  "here = ''localhost:8001''"

definition there :: string where
  "there = ''localhost:8002''"

definition offerFrom :: "string \<Rightarrow> SignalSDP" where
  "offerFrom a = \<lparr>SDP = ''v=0'', Action = Offer, Mode = TextConnection, Origin = a\<rparr>"

definition answerFrom :: "string \<Rightarrow> SignalSDP" where
  "answerFrom a = \<lparr>SDP = ''v=0'', Action = Answer, Mode = TextConnection, Origin = a\<rparr>"

definition refuseFrom :: "string \<Rightarrow> SignalSDP" where
  "refuseFrom a = \<lparr>SDP = [], Action = Refuse, Mode = TextConnection, Origin = a\<rparr>"

definition dialed :: RTCPeer where
  "dialed = fst (Ring allSucceed (NewRTCPeer here) there TextConnection)"

definition buffered :: RTCPeer where
  "buffered =
     fst (handleICECandidate allSucceed
            (fst (handleICECandidate allSucceed dialed 0 (Some ''c1''))) 0 (Some ''c2''))"

definition answered :: RTCPeer where
  "answered = fst (httpHandleSDP allSucceed buffered (Inr (answerFrom there)))"

definition refused :: RTCPeer where
  "refused = fst (httpHandleSDP allSucceed dialed (Inr (refuseFrom there)))"



text \<open>The Connection of \<open>dialed\<close>, written out.\<close>

definition ringingConnection :: Connection where
  "ringingConnection =
     \<lparr>peer = \<lparr>remoteDescription = None, localDescription = Some ''v=0'', transceivers = 0,
               onTrack = None\<rparr>,
      remoteAddr = there, isInitiator = True, mode = TextConnection, state = Ringing,
      pendingCandidates = [], dataChan = Some ''data'', audioSndr = None\<rparr>"



definition listening :: RTCPeer where
  "listening = fst (httpHandleSDP allSucceed (NewRTCPeer there)
                      (Inr ((offerFrom here)\<lparr>Mode := VoiceConnectionSimplex\<rparr>)))"



definition listeningConnection :: Connection where
  "listeningConnection =
     \<lparr>peer = \<lparr>remoteDescription = Some ''v=0'', localDescription = Some ''v=0'',
               transceivers = Suc 0, onTrack = Some ''resources/results//localhost:8001.opus''\<rparr>,
      remoteAddr = here, isInitiator = False, mode = VoiceConnectionSimplex, state = InCall,
      pendingCandidates = [], dataChan = None, audioSndr = None\<rparr>"

section \<open>Properties\<close>

subsection \<open>The sample runs, evaluated\<close>

lemma dialed_eq:
  "dialed = \<lparr>listenAddr = here, Connections = [there \<mapsto> 0],
              conns = (\<lambda>p. zeroConnection)(0 := ringingConnection), fresh = Suc 0\<rparr>"
  by (simp add: dialed_def Ring_def newConnection_def upd_def NewRTCPeer_def allSucceed_def
      ringingConnection_def)

lemma buffered_eq:
  "buffered = \<lparr>listenAddr = here, Connections = [there \<mapsto> 0],
                conns = (\<lambda>p. zeroConnection)
                  (0 := ringingConnection\<lparr>pendingCandidates := [''c1'', ''c2'']\<rparr>),
                fresh = Suc 0\<rparr>"
  by (simp add: buffered_def dialed_eq handleICECandidate_def upd_def ringingConnection_def)

lemma answered_eq:
  "answered = \<lparr>listenAddr = here, Connections = [there \<mapsto> 0],
                conns = (\<lambda>p. zeroConnection)
                  (0 := ringingConnection
                     \<lparr>peer := (peer ringingConnection)\<lparr>remoteDescription := Some ''v=0''\<rparr>,
                      state := InCall, pendingCandidates := [''c1'', ''c2'']\<rparr>),
                fresh = Suc 0\<rparr>"
  by (simp add: answered_def buffered_eq httpHandleSDP_def lookupOrCreate_def actionGuard_def
      attachReceiver_def sendAnswer_def signalCandidate_def answerFrom_def upd_def
      ringingConnection_def allSucceed_def)

lemma refused_eq:
  "refused = \<lparr>listenAddr = here, Connections = [there \<mapsto> 0],
               conns = (\<lambda>p. zeroConnection)(0 := ringingConnection\<lparr>state := Standby\<rparr>),
               fresh = Suc 0\<rparr>"
  by (simp add: refused_def dialed_eq httpHandleSDP_def lookupOrCreate_def actionGuard_def
      refuseFrom_def upd_def ringingConnection_def allSucceed_def)





lemma listening_eq:
  "listening = \<lparr>listenAddr = there, Connections = [here \<mapsto> 0],
                 conns = (\<lambda>p. zeroConnection)(0 := listeningConnection), fresh = Suc 0\<rparr>"
  by (simp add: listening_def newConnection_def getAudio_def upd_def NewRTCPeer_def
      allSucceed_def httpHandleSDP_def lookupOrCreate_def actionGuard_def outputPath_def
      attachReceiver_def sendAnswer_def offerFrom_def listeningConnection_def here_def)

subsection \<open>What the steps of the description handler keep\<close>

lemma Connections_upd [simp]: "Connections (upd w p f) = Connections w"
  by (simp add: upd_def)

lemma listenAddr_upd [simp]: "listenAddr (upd w p f) = listenAddr w"
  by (simp add: upd_def)

lemma conns_upd [simp]: "conns (upd w p f) q = (if q = p then f (conns w p) else conns w q)"
  by (simp add: upd_def)

lemma getAudio_keeps:
  "state (conns (fst (getAudio env w p)) q) = state (conns w q)"
  "pendingCandidates (conns (fst (getAudio env w p)) q) = pendingCandidates (conns w q)"
  "remoteDescription (peer (conns (fst (getAudio env w p)) q)) =
     remoteDescription (peer (conns w q))"
  "remoteAddr (conns (fst (getAudio env w p)) q) = remoteAddr (conns w q)"
  "listenAddr (fst (getAudio env w p)) = listenAddr w"
  by (simp_all add: getAudio_def Let_def split: option.splits)

lemma attachReceiver_keeps [simp]:
  "state (conns (attachReceiver env w p s) q) = state (conns w q)"
  "pendingCandidates (conns (attachReceiver env w p s) q) = pendingCandidates (conns w q)"
  "remoteDescription (peer (conns (attachReceiver env w p s) q)) =
     remoteDescription (peer (conns w q))"
  "remoteAddr (conns (attachReceiver env w p s) q) = remoteAddr (conns w q)"
  "listenAddr (attachReceiver env w p s) = listenAddr w"
  by (simp_all add: attachReceiver_def getAudio_keeps split: ConnectionMode.splits)

lemma lookupOrCreate_listenAddr:
  "lookupOrCreate env w s = Inr (w1, p) \<Longrightarrow> listenAddr w1 = listenAddr w"
  by (auto simp: lookupOrCreate_def newConnection_def Let_def split: option.splits)

lemma posted_Println [simp]:
  "candidatesPosted (Println xs # evs) = candidatesPosted evs"
  "descriptionsPosted (Println xs # evs) = descriptionsPosted evs"
  by (simp_all add: Println_def)

lemma descriptionsPosted_sendRefuse:
  "descriptionsPosted (sendRefuse env w s e) =
     (if fails env json_Marshal = None
      then [(''http://'' @ Origin s @ ''/sdp'',
             \<lparr>SDP = [], Action = Refuse, Mode = TextConnection, Origin = listenAddr w\<rparr>)]
      else [])"
  by (simp add: sendRefuse_def split: option.splits)

lemma sendRefuse_logs: "Println [''couldn't set remote sdp: '', e] \<in> set (sendRefuse env w s e)"
  by (simp add: sendRefuse_def)

lemma candidatesPosted_sendRefuse: "candidatesPosted (sendRefuse env w s e) = []"
  by (simp add: sendRefuse_def split: option.splits)

lemma posted_append:
  "candidatesPosted (xs @ ys) = candidatesPosted xs @ candidatesPosted ys"
  "descriptionsPosted (xs @ ys) = descriptionsPosted xs @ descriptionsPosted ys"
  by (induction xs rule: candidatesPosted.induct) simp_all

lemma Connections_getAudio [simp]: "Connections (fst (getAudio env w p)) = Connections w"
  by (simp add: getAudio_def Let_def split: option.splits)

lemma Connections_attachReceiver [simp]:
  "Connections (attachReceiver env w p s) = Connections w"
  by (simp add: attachReceiver_def split: ConnectionMode.splits)

lemma Connections_sendAnswer [simp]: "Connections (fst (sendAnswer env w p)) = Connections w"
  by (simp add: sendAnswer_def Let_def split: option.splits)

lemma Connections_actionGuard [simp]: "Connections (fst (actionGuard w p s)) = Connections w"
  by (simp add: actionGuard_def Let_def split: SignalAction.splits)

lemma httpHandleSDP_Connections:
  assumes "lookupOrCreate env w s = Inr (w1, p)"
  shows "Connections (fst (httpHandleSDP env w (Inr s))) = Connections w1"
proof -
  obtain w2 ev b where g: "actionGuard w1 p s = (w2, ev, b)"
    by (cases "actionGuard w1 p s") auto
  have c2: "Connections w2 = Connections w1"
    using Connections_actionGuard [of w1 p s] g by simp
  obtain w5 ev2 b2 where a: "sendAnswer env
      (upd (attachReceiver env w2 p s) p
         (\<lambda>k. k\<lparr>peer := (peer k)\<lparr>remoteDescription := Some (SDP s)\<rparr>\<rparr>)) p = (w5, ev2, b2)"
    by (cases "sendAnswer env
      (upd (attachReceiver env w2 p s) p
         (\<lambda>k. k\<lparr>peer := (peer k)\<lparr>remoteDescription := Some (SDP s)\<rparr>\<rparr>)) p") auto
  have c5: "Connections w5 = Connections w2"
    using Connections_sendAnswer [of env "upd (attachReceiver env w2 p s) p
         (\<lambda>k. k\<lparr>peer := (peer k)\<lparr>remoteDescription := Some (SDP s)\<rparr>\<rparr>)" p] a by simp
  show ?thesis
    using assms g a c2 c5
    by (cases b; cases b2) (simp_all add: httpHandleSDP_def Let_def split: option.splits prod.splits)
qed

lemma flush_all_sent:
  assumes "\<forall>x. fails env x = None"
  shows "flush env i w p cs =
           (map (\<lambda>c. Posted (''http://'' @ remoteAddr (conns w p) @ ''/candidate'')
                        (CandidateBody \<lparr>Candidate = c, CandidateOrigin = listenAddr w\<rparr>)) cs,
            None)"
  using assms by (induction cs arbitrary: i) (simp_all add: signalCandidate_def)

lemma candidatesPosted_map:
  "candidatesPosted (map (\<lambda>c. Posted url (CandidateBody \<lparr>Candidate = c, CandidateOrigin = a\<rparr>)) cs)
     = cs"
  by (induction cs) simp_all

lemma sendAnswer_all_sent:
  assumes "\<forall>x. fails env x = None"
  shows "sendAnswer env w p =
           (if state (conns w p) \<noteq> Answering then (w, [], True)
            else (upd w p (\<lambda>k. k\<lparr>peer := (peer k)\<lparr>localDescription := Some (localSDP env)\<rparr>\<rparr>),
                  [Posted (''http://'' @ remoteAddr (conns w p) @ ''/sdp'')
                     (SDPBody \<lparr>SDP = localSDP env, Action = Answer, Mode = TextConnection,
                               Origin = listenAddr w\<rparr>)], True))"
  using assms by (simp add: sendAnswer_def)

subsection \<open>The streaming loops end in Close\<close>








subsection \<open>A failed dial\<close>

text \<open>
  C1. A dial that fails before line 716 leaves the Connection registered. With the audio
  source missing (\<open>os.Open\<close> fails) a voice call to \<open>there\<close> from a peer with an empty
  registry ends at the label \<open>fail\<close>: the Connection is closed, but \<open>Close\<close> deletes
  the registry entry under \<open>remoteAddr\<close>, which is still the empty string, so the entry
  under \<open>there\<close> stays, pointing to the closed Connection. The same holds when
  \<open>CreateDataChannel\<close>, \<open>CreateOffer\<close>, \<open>SetLocalDescription\<close> or \<open>json.Marshal\<close>
  fails. Only a failure of the post, after \<open>remoteAddr\<close> has been assigned, removes the
  entry.
\<close>

theorem Ring_media_failure_stays_registered:
  "Connections (NewRTCPeer here) there = None \<and>
   Ring (failing os_Open) (NewRTCPeer here) there VoiceConnectionSimplex =
     (\<lparr>listenAddr = here, Connections = [there \<mapsto> 0],
       conns = (\<lambda>p. zeroConnection)
         (0 := \<lparr>peer = \<lparr>remoteDescription = None, localDescription = None, transceivers = 0,
                         onTrack = None\<rparr>,
                 remoteAddr = [], isInitiator = True, mode = VoiceConnectionSimplex,
                 state = Closed, pendingCandidates = [], dataChan = Some ''data'',
                 audioSndr = Some \<lparr>track = True, rtp = True, ogg = None\<rparr>\<rparr>),
       fresh = Suc 0\<rparr>,
      [Log ''can't start voice call, problem loading audio file: failed'',
       DataChanClosed 0, PeerClosed 0, Log ''connection to  closed''],
      None) \<and>
   Connections (fst (Ring (failing CreateDataChannel) (NewRTCPeer here) there TextConnection))
     there = Some 0 \<and>
   Connections (fst (Ring (failing CreateOffer) (NewRTCPeer here) there TextConnection))
     there = Some 0 \<and>
   Connections (fst (Ring (failing SetLocalDescription) (NewRTCPeer here) there TextConnection))
     there = Some 0 \<and>
   Connections (fst (Ring (failing json_Marshal) (NewRTCPeer here) there TextConnection))
     there = Some 0 \<and>
   Connections (fst (Ring (failing http_Post) (NewRTCPeer here) there TextConnection))
     there = None"
  by (simp add: Ring_def Ring_fail_def newConnection_def loadAudio_def Close_def upd_def
      NewRTCPeer_def failing_def allSucceed_def Println_def audioSource_def here_def there_def
      fun_eq_iff)

subsection \<open>Candidate buffering\<close>

text \<open>
  C2, as amended. A candidate discovered while the remote description is unset is
  appended to the buffer and not signaled; one discovered while it is set is posted at
  once and the world, the buffer included, stays as it is. When an accepted \<open>Offer\<close> or
  \<open>Answer\<close> of an existing Connection is handled and every external call succeeds, the
  remote description is set, the candidates posted are exactly the buffered ones, once
  each and in buffering order, the Connection becomes \<open>InCall\<close>, and the buffer keeps
  its content: it is read, not cleared. In \<open>InCall\<close> no description is accepted any
  more, so the buffer is not posted a second time.
\<close>

theorem candidate_buffering:
  "(remoteDescription (peer (conns w p)) = None \<longrightarrow>
      handleICECandidate env w p (Some c) =
        (upd w p (\<lambda>k. k\<lparr>pendingCandidates := pendingCandidates k @ [c]\<rparr>), [], None)) \<and>
   (remoteDescription (peer (conns w p)) \<noteq> None \<longrightarrow>
      fst (handleICECandidate env w p (Some c)) = w \<and>
      fst (snd (handleICECandidate env w p (Some c))) =
        [Posted (''http://'' @ remoteAddr (conns w p) @ ''/candidate'')
           (CandidateBody \<lparr>Candidate = c, CandidateOrigin = listenAddr w\<rparr>)]) \<and>
   (Connections w (Origin s) = Some p \<and>
    ((Action s = Offer \<and> state (conns w p) = Standby) \<or>
     (Action s = Answer \<and> state (conns w p) = Ringing)) \<and>
    (\<forall>x. fails env x = None) \<longrightarrow>
      remoteDescription (peer (conns (fst (httpHandleSDP env w (Inr s))) p)) = Some (SDP s) \<and>
      candidatesPosted (snd (httpHandleSDP env w (Inr s))) = pendingCandidates (conns w p) \<and>
      pendingCandidates (conns (fst (httpHandleSDP env w (Inr s))) p) =
        pendingCandidates (conns w p) \<and>
      state (conns (fst (httpHandleSDP env w (Inr s))) p) = InCall) \<and>
   (Connections w (Origin s) = Some p \<and> state (conns w p) = InCall \<longrightarrow>
      fst (httpHandleSDP env w (Inr s)) = w \<and>
      candidatesPosted (snd (httpHandleSDP env w (Inr s))) = [])"
proof (intro conjI impI)
  assume "remoteDescription (peer (conns w p)) = None"
  then show "handleICECandidate env w p (Some c) =
        (upd w p (\<lambda>k. k\<lparr>pendingCandidates := pendingCandidates k @ [c]\<rparr>), [], None)"
    by (simp add: handleICECandidate_def)
next
  assume "remoteDescription (peer (conns w p)) \<noteq> None"
  then obtain d where d: "remoteDescription (peer (conns w p)) = Some d" by auto
  show "fst (handleICECandidate env w p (Some c)) = w"
    using d by (simp add: handleICECandidate_def signalCandidate_def Let_def split: option.splits)
  show "fst (snd (handleICECandidate env w p (Some c))) =
        [Posted (''http://'' @ remoteAddr (conns w p) @ ''/candidate'')
           (CandidateBody \<lparr>Candidate = c, CandidateOrigin = listenAddr w\<rparr>)]"
    using d by (simp add: handleICECandidate_def signalCandidate_def Let_def split: option.splits)
next
  assume h: "Connections w (Origin s) = Some p \<and>
    ((Action s = Offer \<and> state (conns w p) = Standby) \<or>
     (Action s = Answer \<and> state (conns w p) = Ringing)) \<and>
    (\<forall>x. fails env x = None)"
  then have ok: "\<forall>x. fails env x = None" and l: "lookupOrCreate env w s = Inr (w, p)"
    by (simp_all add: lookupOrCreate_def)
  have r: "remoteDescription (peer (conns (fst (httpHandleSDP env w (Inr s))) p)) = Some (SDP s) \<and>
      candidatesPosted (snd (httpHandleSDP env w (Inr s))) = pendingCandidates (conns w p) \<and>
      pendingCandidates (conns (fst (httpHandleSDP env w (Inr s))) p) =
        pendingCandidates (conns w p) \<and>
      state (conns (fst (httpHandleSDP env w (Inr s))) p) = InCall"
    using h l ok
    by (auto simp: httpHandleSDP_def actionGuard_def Let_def sendAnswer_all_sent [OF ok]
        flush_all_sent [OF ok] posted_append candidatesPosted_map)
  from r show "remoteDescription (peer (conns (fst (httpHandleSDP env w (Inr s))) p)) =
      Some (SDP s)" by simp
  from r show "candidatesPosted (snd (httpHandleSDP env w (Inr s))) =
      pendingCandidates (conns w p)" by simp
  from r show "pendingCandidates (conns (fst (httpHandleSDP env w (Inr s))) p) =
        pendingCandidates (conns w p)" by simp
  from r show "state (conns (fst (httpHandleSDP env w (Inr s))) p) = InCall" by simp
next
  assume h: "Connections w (Origin s) = Some p \<and> state (conns w p) = InCall"
  show "fst (httpHandleSDP env w (Inr s)) = w"
    using h by (cases "Action s") (simp_all add: httpHandleSDP_def lookupOrCreate_def actionGuard_def)
  show "candidatesPosted (snd (httpHandleSDP env w (Inr s))) = []"
    using h by (cases "Action s") (simp_all add: httpHandleSDP_def lookupOrCreate_def actionGuard_def)
qed

theorem candidate_buffering_witness:
  "remoteDescription (peer (conns dialed 0)) = None \<and>
   pendingCandidates (conns (fst (handleICECandidate allSucceed dialed 0 (Some ''c1''))) 0) =
     [''c1''] \<and>
   fst (snd (handleICECandidate allSucceed dialed 0 (Some ''c1''))) = [] \<and>
   remoteDescription (peer (conns answered 0)) = Some ''v=0'' \<and>
   fst (handleICECandidate allSucceed answered 0 (Some ''c3'')) = answered \<and>
   fst (snd (handleICECandidate allSucceed answered 0 (Some ''c3''))) =
     [Posted ''http://localhost:8002/candidate''
        (CandidateBody \<lparr>Candidate = ''c3'', CandidateOrigin = ''localhost:8001''\<rparr>)] \<and>
   candidatesPosted (snd (httpHandleSDP allSucceed buffered (Inr (answerFrom there)))) =
     [''c1'', ''c2''] \<and>
   state (conns (fst (httpHandleSDP allSucceed buffered (Inr (answerFrom there)))) 0) = InCall \<and>
   fst (httpHandleSDP allSucceed answered (Inr (answerFrom there))) = answered \<and>
   candidatesPosted (snd (httpHandleSDP allSucceed answered (Inr (answerFrom there)))) = []"
proof -
  have d: "remoteDescription (peer (conns dialed 0)) = None"
    "pendingCandidates (conns dialed 0) = []"
    by (simp_all add: dialed_eq ringingConnection_def)
  have a: "remoteDescription (peer (conns answered 0)) = Some ''v=0''"
    "remoteAddr (conns answered 0) = ''localhost:8002''" "listenAddr answered = ''localhost:8001''"
    "Connections answered (Origin (answerFrom there)) = Some 0 \<and> state (conns answered 0) = InCall"
    by (simp_all add: answered_eq ringingConnection_def answerFrom_def here_def there_def)
  have b: "Connections buffered (Origin (answerFrom there)) = Some 0 \<and>
           ((Action (answerFrom there) = Offer \<and> state (conns buffered 0) = Standby) \<or>
            (Action (answerFrom there) = Answer \<and> state (conns buffered 0) = Ringing)) \<and>
           (\<forall>x. fails allSucceed x = None)"
    "pendingCandidates (conns buffered 0) = [''c1'', ''c2'']"
    by (simp_all add: buffered_eq ringingConnection_def answerFrom_def allSucceed_def)
  note t1 = candidate_buffering [of dialed 0 allSucceed "''c1''"]
  note t2 = candidate_buffering [of answered 0 allSucceed "''c3''" "answerFrom there"]
  note t3 = candidate_buffering [of buffered 0 allSucceed _ "answerFrom there"]
  have r1: "pendingCandidates (conns (fst (handleICECandidate allSucceed dialed 0 (Some ''c1''))) 0) =
     [''c1'']" "fst (snd (handleICECandidate allSucceed dialed 0 (Some ''c1''))) = []"
    using t1 d by simp_all
  have r2: "fst (handleICECandidate allSucceed answered 0 (Some ''c3'')) = answered"
    "fst (snd (handleICECandidate allSucceed answered 0 (Some ''c3''))) =
     [Posted ''http://localhost:8002/candidate''
        (CandidateBody \<lparr>Candidate = ''c3'', CandidateOrigin = ''localhost:8001''\<rparr>)]"
    "fst (httpHandleSDP allSucceed answered (Inr (answerFrom there))) = answered"
    "candidatesPosted (snd (httpHandleSDP allSucceed answered (Inr (answerFrom there)))) = []"
    using t2 a by simp_all
  have r3: "candidatesPosted (snd (httpHandleSDP allSucceed buffered (Inr (answerFrom there)))) =
     [''c1'', ''c2'']"
    "state (conns (fst (httpHandleSDP allSucceed buffered (Inr (answerFrom there)))) 0) = InCall"
    using t3 b by simp_all
  from d a r1 r2 r3 show ?thesis by simp
qed

text \<open>The claim as stated fails: after the drain the buffer still holds the two
  candidates; and when the first post fails the remote description is set, the second
  candidate is not signaled and the Connection stays \<open>Ringing\<close>.\<close>

theorem drained_buffer_is_kept:
  "pendingCandidates (conns buffered 0) = [''c1'', ''c2''] \<and>
   remoteDescription (peer (conns buffered 0)) = None \<and>
   answered = fst (httpHandleSDP allSucceed buffered (Inr (answerFrom there))) \<and>
   remoteDescription (peer (conns answered 0)) = Some ''v=0'' \<and>
   candidatesPosted (snd (httpHandleSDP allSucceed buffered (Inr (answerFrom there)))) =
     [''c1'', ''c2''] \<and>
   pendingCandidates (conns answered 0) = [''c1'', ''c2''] \<and>
   remoteDescription (peer (conns (fst (httpHandleSDP (failing (candidate_Post 0)) buffered
                                          (Inr (answerFrom there)))) 0)) = Some ''v=0'' \<and>
   candidatesPosted (snd (httpHandleSDP (failing (candidate_Post 0)) buffered
                            (Inr (answerFrom there)))) = [''c1''] \<and>
   state (conns (fst (httpHandleSDP (failing (candidate_Post 0)) buffered
                        (Inr (answerFrom there)))) 0) = Ringing"
  by (simp add: answered_def [symmetric])
     (simp add: answered_eq buffered_eq ringingConnection_def httpHandleSDP_def
        lookupOrCreate_def actionGuard_def attachReceiver_def sendAnswer_def signalCandidate_def
        answerFrom_def allSucceed_def failing_def upd_def Println_def)

subsection \<open>A description that cannot be applied\<close>

text \<open>
  C3, as amended. When an accepted \<open>Offer\<close> or \<open>Answer\<close> cannot be applied as the remote
  description, the handler logs the failure and posts a \<open>Refuse\<close> to the origin (the
  only description posted;
  none when marshalling it fails), signals no candidate, and leaves the candidate
  buffer as it was. The failure itself changes no state: after an \<open>Answer\<close> the
  Connection is in the state it had, \<open>Ringing\<close>; after an \<open>Offer\<close> it is in
  \<open>Answering\<close>, the state set at line 376 before the description is applied.
\<close>

theorem failed_remote_description:
  assumes "lookupOrCreate env w s = Inr (w1, p)"
    and "(Action s = Offer \<and> state (conns w1 p) = Standby) \<or>
         (Action s = Answer \<and> state (conns w1 p) = Ringing)"
    and "fails env SetRemoteDescription = Some e"
  shows "state (conns (fst (httpHandleSDP env w (Inr s))) p) =
           (if Action s = Offer then Answering else state (conns w1 p)) \<and>
         pendingCandidates (conns (fst (httpHandleSDP env w (Inr s))) p) =
           pendingCandidates (conns w1 p) \<and>
         Println [''couldn't set remote sdp: '', e] \<in> set (snd (httpHandleSDP env w (Inr s))) \<and>
         candidatesPosted (snd (httpHandleSDP env w (Inr s))) = [] \<and>
         descriptionsPosted (snd (httpHandleSDP env w (Inr s))) =
           (if fails env json_Marshal = None
            then [(''http://'' @ Origin s @ ''/sdp'',
                   \<lparr>SDP = [], Action = Refuse, Mode = TextConnection, Origin = listenAddr w\<rparr>)]
            else [])"
  using assms(2)
proof
  assume "Action s = Offer \<and> state (conns w1 p) = Standby"
  then show ?thesis
    using assms(1,3) lookupOrCreate_listenAddr [OF assms(1)]
    by (simp add: httpHandleSDP_def actionGuard_def Let_def posted_append
        descriptionsPosted_sendRefuse candidatesPosted_sendRefuse sendRefuse_logs)
next
  assume "Action s = Answer \<and> state (conns w1 p) = Ringing"
  then show ?thesis
    using assms(1,3) lookupOrCreate_listenAddr [OF assms(1)]
    by (simp add: httpHandleSDP_def actionGuard_def Let_def posted_append
        descriptionsPosted_sendRefuse candidatesPosted_sendRefuse sendRefuse_logs)
qed

theorem failed_remote_description_witness:
  "state (conns dialed 0) = Ringing \<and>
   state (conns (fst (httpHandleSDP (failing SetRemoteDescription) dialed
                        (Inr (answerFrom there)))) 0) = Ringing \<and>
   descriptionsPosted (snd (httpHandleSDP (failing SetRemoteDescription) dialed
                        (Inr (answerFrom there)))) =
     [(''http://localhost:8002/sdp'',
       \<lparr>SDP = [], Action = Refuse, Mode = TextConnection, Origin = ''localhost:8001''\<rparr>)] \<and>
   state (conns (fst (httpHandleSDP (failing SetRemoteDescription) (NewRTCPeer here)
                        (Inr (offerFrom there)))) 0) = Answering"
proof -
  let ?env = "failing SetRemoteDescription"
  have l1: "lookupOrCreate ?env dialed (answerFrom there) = Inr (dialed, 0)"
    by (simp add: lookupOrCreate_def dialed_eq answerFrom_def)
  have g1: "(Action (answerFrom there) = Offer \<and> state (conns dialed 0) = Standby) \<or>
            (Action (answerFrom there) = Answer \<and> state (conns dialed 0) = Ringing)"
    by (simp add: answerFrom_def dialed_eq ringingConnection_def)
  have f: "fails ?env SetRemoteDescription = Some ''failed''"
    "fails ?env json_Marshal = None"
    by (simp_all add: failing_def allSucceed_def)
  have l2: "lookupOrCreate ?env (NewRTCPeer here) (offerFrom there) =
      Inr (\<lparr>listenAddr = here, Connections = [there \<mapsto> 0],
             conns = (\<lambda>p. zeroConnection), fresh = Suc 0\<rparr>, 0)"
    by (simp add: lookupOrCreate_def newConnection_def NewRTCPeer_def offerFrom_def failing_def
        allSucceed_def zeroConnection_def Let_def fun_eq_iff)
  have g2: "(Action (offerFrom there) = Offer \<and>
             state (conns \<lparr>listenAddr = here, Connections = [there \<mapsto> 0],
                            conns = (\<lambda>p. zeroConnection), fresh = Suc 0\<rparr> 0) = Standby) \<or>
            (Action (offerFrom there) = Answer \<and>
             state (conns \<lparr>listenAddr = here, Connections = [there \<mapsto> 0],
                            conns = (\<lambda>p. zeroConnection), fresh = Suc 0\<rparr> 0) = Ringing)"
    by (simp add: offerFrom_def zeroConnection_def)
  have d: "state (conns dialed 0) = Ringing" "listenAddr dialed = ''localhost:8001''"
    by (simp_all add: dialed_eq ringingConnection_def here_def)
  from failed_remote_description [OF l1 g1 f(1)] failed_remote_description [OF l2 g2 f(1)] d f(2)
  show ?thesis by (simp add: answerFrom_def offerFrom_def there_def)
qed

text \<open>The claim as stated fails: a Connection in \<open>Standby\<close> that receives an \<open>Offer\<close>
  which cannot be applied is in \<open>Answering\<close> afterwards.\<close>

theorem failed_Offer_leaves_Answering:
  "Connections refused there = Some 0 \<and> state (conns refused 0) = Standby \<and>
   state (conns (fst (httpHandleSDP (failing SetRemoteDescription) refused
                        (Inr (offerFrom there)))) 0) = Answering \<and>
   snd (httpHandleSDP (failing SetRemoteDescription) refused (Inr (offerFrom there))) =
     [Log ''incoming call from  localhost:8002'', RemoteDescriptionCall 0 ''v=0'',
      Log ''couldn't set remote sdp:  failed'',
      Posted ''http://localhost:8002/sdp''
        (SDPBody \<lparr>SDP = [], Action = Refuse, Mode = TextConnection, Origin = ''localhost:8001''\<rparr>)]"
  by (simp add: httpHandleSDP_def lookupOrCreate_def actionGuard_def attachReceiver_def
      sendRefuse_def refused_eq ringingConnection_def failing_def allSucceed_def offerFrom_def
      Println_def here_def there_def)

subsection \<open>A candidate that cannot be signaled\<close>

text \<open>
  C4. With the remote description set, a discovered candidate is posted at once; when
  the post fails \<open>handleICECandidate\<close> panics with the error, which ends the process,
  instead of logging it. The loop over the buffer in \<open>httpHandleSDP\<close> calls the same
  \<open>signalCandidate\<close> and logs the error.
\<close>

theorem failed_candidate_signal_panics:
  "remoteDescription (peer (conns answered 0)) = Some ''v=0'' \<and>
   handleICECandidate (failing (candidate_Post 0)) answered 0 (Some ''c3'') =
     (answered,
      [Posted ''http://localhost:8002/candidate''
         (CandidateBody \<lparr>Candidate = ''c3'', CandidateOrigin = ''localhost:8001''\<rparr>)],
      Some ''failed'') \<and>
   snd (httpHandleSDP (failing (candidate_Post 0)) buffered (Inr (answerFrom there))) =
     [Log ''answer from  localhost:8002'',
      RemoteDescriptionCall 0 ''v=0'',
      Posted ''http://localhost:8002/candidate''
         (CandidateBody \<lparr>Candidate = ''c1'', CandidateOrigin = ''localhost:8001''\<rparr>),
      Log ''unable to signal remote conn:  failed'']"
  by (simp add: handleICECandidate_def signalCandidate_def answered_eq buffered_eq
      ringingConnection_def failing_def allSucceed_def httpHandleSDP_def lookupOrCreate_def
      actionGuard_def attachReceiver_def sendAnswer_def answerFrom_def upd_def Println_def
      here_def there_def)

subsection \<open>A message to an unknown address\<close>

text \<open>
  C5. \<open>/msg\<close> to an address without a Connection logs \<open>no such destination\<close> and,
  with no \<open>return\<close> after the log, calls \<open>SendMsg\<close> on the nil pointer, which panics.
  A Connection that is not \<open>InCall\<close> gives a diagnostic and no change, and so does
  \<open>/end\<close> for an unknown address, whose branch returns after the log.
\<close>

theorem msg_to_unknown_address_panics:
  "parseCommand allSucceed [] (NewRTCPeer here) ''/msg localhost:8002 hello'' =
     (NewRTCPeer here, [Log ''no such destination''], Some nilDereference) \<and>
   parseCommand allSucceed [] dialed ''/msg localhost:8002 hello'' =
     (dialed, [Log ''but there was nobody listening...''], None) \<and>
   parseCommand allSucceed [] (NewRTCPeer here) ''/end localhost:8002'' =
     (NewRTCPeer here, [Log ''not connected to localhost:8002''], None)"
  by (simp add: parseCommand_def SendMsg_def HangUp_def NewRTCPeer_def Println_def dialed_eq
      ringingConnection_def there_def numeral_3_eq_3)

subsection \<open>Registration by inbound signals\<close>

text \<open>
  C6, as amended. A candidate from an address without a Connection is logged and
  dropped: the world is unchanged. A session description from an address without a
  Connection registers a new Connection under that address whatever its action is,
  provided the peer connection can be created; for an \<open>Answer\<close>, a \<open>Refuse\<close> or an
  unknown action the handler then logs one line and returns, and the new Connection, in
  \<open>Standby\<close>, stays registered. When the peer connection cannot be created the world is
  unchanged. A description from an address that has a Connection leaves the registry as
  it is.
\<close>

theorem inbound_signal_registration:
  "(Connections w (CandidateOrigin c) = None \<longrightarrow>
      httpHandleCandidate env w (Inr c) =
        (w, [Println [''got a candidate from'', CandidateOrigin c, ''but wasn't expecting one'']])) \<and>
   (Connections w (Origin s) = None \<and> fails env NewPeerConnection = None \<longrightarrow>
      Connections (fst (httpHandleSDP env w (Inr s))) = (Connections w)(Origin s \<mapsto> fresh w)) \<and>
   (Connections w (Origin s) = None \<and> fails env NewPeerConnection = None \<and> Action s \<noteq> Offer \<longrightarrow>
      (\<exists>msg. httpHandleSDP env w (Inr s) =
         (w\<lparr>Connections := (Connections w)(Origin s \<mapsto> fresh w),
            conns := (conns w)(fresh w := zeroConnection\<lparr>mode := Mode s\<rparr>),
            fresh := Suc (fresh w)\<rparr>, [Log msg]))) \<and>
   (Connections w (Origin s) = None \<and> fails env NewPeerConnection = Some e \<longrightarrow>
      httpHandleSDP env w (Inr s) = (w, [Println [''couldn't create new connection:'', e]])) \<and>
   (Connections w (Origin s) = Some p \<longrightarrow>
      Connections (fst (httpHandleSDP env w (Inr s))) = Connections w)"
proof (intro conjI impI)
  assume "Connections w (CandidateOrigin c) = None"
  then show "httpHandleCandidate env w (Inr c) =
        (w, [Println [''got a candidate from'', CandidateOrigin c, ''but wasn't expecting one'']])"
    by (simp add: httpHandleCandidate_def)
next
  assume h: "Connections w (Origin s) = None \<and> fails env NewPeerConnection = None"
  then have "lookupOrCreate env w s =
      Inr (w\<lparr>conns := (conns w)(fresh w := zeroConnection\<lparr>mode := Mode s\<rparr>),
             fresh := Suc (fresh w),
             Connections := (Connections w)(Origin s \<mapsto> fresh w)\<rparr>, fresh w)"
    by (simp add: lookupOrCreate_def newConnection_def zeroConnection_def Let_def)
  from httpHandleSDP_Connections [OF this]
  show "Connections (fst (httpHandleSDP env w (Inr s))) = (Connections w)(Origin s \<mapsto> fresh w)"
    by simp
next
  assume h: "Connections w (Origin s) = None \<and> fails env NewPeerConnection = None \<and>
             Action s \<noteq> Offer"
  then show "\<exists>msg. httpHandleSDP env w (Inr s) =
         (w\<lparr>Connections := (Connections w)(Origin s \<mapsto> fresh w),
            conns := (conns w)(fresh w := zeroConnection\<lparr>mode := Mode s\<rparr>),
            fresh := Suc (fresh w)\<rparr>, [Log msg])"
    by (cases "Action s")
       (simp_all add: httpHandleSDP_def lookupOrCreate_def newConnection_def actionGuard_def
          zeroConnection_def Println_def Let_def)
next
  assume "Connections w (Origin s) = None \<and> fails env NewPeerConnection = Some e"
  then show "httpHandleSDP env w (Inr s) = (w, [Println [''couldn't create new connection:'', e]])"
    by (simp add: httpHandleSDP_def lookupOrCreate_def newConnection_def)
next
  assume "Connections w (Origin s) = Some p"
  then have "lookupOrCreate env w s = Inr (w, p)"
    by (simp add: lookupOrCreate_def)
  from httpHandleSDP_Connections [OF this]
  show "Connections (fst (httpHandleSDP env w (Inr s))) = Connections w" .
qed

theorem inbound_signal_registration_witness:
  "httpHandleCandidate allSucceed (NewRTCPeer here)
      (Inr \<lparr>Candidate = ''c1'', CandidateOrigin = there\<rparr>) =
     (NewRTCPeer here, [Log ''got a candidate from localhost:8002 but wasn't expecting one'']) \<and>
   Connections (fst (httpHandleSDP allSucceed (NewRTCPeer here) (Inr (offerFrom there)))) =
     [there \<mapsto> 0] \<and>
   Connections (fst (httpHandleSDP allSucceed (NewRTCPeer here) (Inr (refuseFrom there)))) =
     [there \<mapsto> 0] \<and>
   state (conns (fst (httpHandleSDP allSucceed (NewRTCPeer here) (Inr (refuseFrom there)))) 0) =
     Standby \<and>
   httpHandleSDP (failing NewPeerConnection) (NewRTCPeer here) (Inr (offerFrom there)) =
     (NewRTCPeer here, [Log ''couldn't create new connection: failed'']) \<and>
   Connections (fst (httpHandleSDP allSucceed dialed (Inr (answerFrom there)))) =
     [there \<mapsto> 0]"
proof -
  let ?w = "NewRTCPeer here"
  have u: "Connections ?w there = None" "fresh ?w = 0" "Connections ?w = Map.empty"
    by (simp_all add: NewRTCPeer_def)
  have ok: "fails allSucceed NewPeerConnection = None"
    "fails (failing NewPeerConnection) NewPeerConnection = Some ''failed''"
    by (simp_all add: allSucceed_def failing_def)
  have o: "Origin (offerFrom there) = there" "Origin (refuseFrom there) = there"
    "Origin (answerFrom there) = there" "Action (refuseFrom there) \<noteq> Offer"
    by (simp_all add: offerFrom_def refuseFrom_def answerFrom_def)
  have d: "Connections dialed there = Some 0" "Connections dialed = [there \<mapsto> 0]"
    by (simp_all add: dialed_eq)
  note t1 = inbound_signal_registration
      [of ?w "\<lparr>Candidate = ''c1'', CandidateOrigin = there\<rparr>" allSucceed "offerFrom there"]
  note t2 = inbound_signal_registration [of ?w _ allSucceed "refuseFrom there"]
  note t3 = inbound_signal_registration
      [of ?w _ "failing NewPeerConnection" "offerFrom there" "''failed''"]
  note t4 = inbound_signal_registration [of dialed _ allSucceed "answerFrom there" _ 0]
  have a: "httpHandleCandidate allSucceed ?w (Inr \<lparr>Candidate = ''c1'', CandidateOrigin = there\<rparr>) =
     (?w, [Log ''got a candidate from localhost:8002 but wasn't expecting one''])"
    using t1 u by (simp add: Println_def there_def)
  have b: "Connections (fst (httpHandleSDP allSucceed ?w (Inr (offerFrom there)))) = [there \<mapsto> 0]"
    using t1 u ok o by simp
  have c: "Connections (fst (httpHandleSDP allSucceed ?w (Inr (refuseFrom there)))) = [there \<mapsto> 0]"
    using t2 u ok o by simp
  have p3: "Connections ?w (Origin (refuseFrom there)) = None \<and>
            fails allSucceed NewPeerConnection = None \<and> Action (refuseFrom there) \<noteq> Offer"
    using u ok o by simp
  from t2 [THEN conjunct2, THEN conjunct2, THEN conjunct1, rule_format, OF p3] obtain msg where
    "httpHandleSDP allSucceed ?w (Inr (refuseFrom there)) =
       (?w\<lparr>Connections := (Connections ?w)(Origin (refuseFrom there) \<mapsto> fresh ?w),
           conns := (conns ?w)(fresh ?w := zeroConnection\<lparr>mode := Mode (refuseFrom there)\<rparr>),
           fresh := Suc (fresh ?w)\<rparr>, [Log msg])"
    by blast
  then have c': "state (conns (fst (httpHandleSDP allSucceed ?w (Inr (refuseFrom there)))) 0) =
      Standby"
    using u by (simp add: zeroConnection_def)
  have e: "httpHandleSDP (failing NewPeerConnection) ?w (Inr (offerFrom there)) =
     (?w, [Log ''couldn't create new connection: failed''])"
    using t3 u ok o by (simp add: Println_def)
  have f: "Connections (fst (httpHandleSDP allSucceed dialed (Inr (answerFrom there)))) =
     [there \<mapsto> 0]"
    using t4 d o by simp
  from a b c c' e f show ?thesis by simp
qed

text \<open>The claim as stated fails: an \<open>Answer\<close> from an unknown address adds an entry.\<close>

theorem stray_Answer_registers_Connection:
  "Connections (NewRTCPeer here) there = None \<and>
   httpHandleSDP allSucceed (NewRTCPeer here) (Inr (answerFrom there)) =
     (\<lparr>listenAddr = here, Connections = [there \<mapsto> 0],
       conns = (\<lambda>p. zeroConnection), fresh = Suc 0\<rparr>,
      [Log ''answer from localhost:8002 but we weren't calling''])"
  by (simp add: httpHandleSDP_def lookupOrCreate_def newConnection_def actionGuard_def
      NewRTCPeer_def allSucceed_def answerFrom_def Println_def zeroConnection_def there_def
      Let_def fun_eq_iff)

subsection \<open>Refusals\<close>

text \<open>
  C7. A \<open>Refuse\<close> from an address that has a Connection: when the Connection is
  \<open>Ringing\<close> the handler sets its state to \<open>Standby\<close> and returns; nothing else of the
  world changes (the peer connection keeps the remote description it had, and
  \<open>SetRemoteDescription\<close> is not called) and the only event is the line saying that the
  remote appears to be busy. In every other state the world is returned as it was and
  the only event is the diagnostic line.
\<close>

theorem Refuse_resets_only_Ringing:
  assumes "Connections w (Origin s) = Some p" and "Action s = Refuse"
  shows "httpHandleSDP env w (Inr s) =
           (if state (conns w p) = Ringing
            then (upd w p (\<lambda>k. k\<lparr>state := Standby\<rparr>),
                  [Println [Origin s, ''appears to be busy'']])
            else (w, [Println [''refusal from'', Origin s, ''but we weren't calling'']]))"
  using assms by (simp add: httpHandleSDP_def lookupOrCreate_def actionGuard_def)

theorem Refuse_resets_only_Ringing_witness:
  "httpHandleSDP allSucceed dialed (Inr (refuseFrom there)) =
     (refused, [Log ''localhost:8002 appears to be busy'']) \<and>
   state (conns dialed 0) = Ringing \<and> state (conns refused 0) = Standby \<and>
   peer (conns refused 0) = peer (conns dialed 0) \<and>
   httpHandleSDP allSucceed answered (Inr (refuseFrom there)) =
     (answered, [Log ''refusal from localhost:8002 but we weren't calling''])"
proof -
  have a: "Action (refuseFrom there) = Refuse" by (simp add: refuseFrom_def)
  have d: "Connections dialed (Origin (refuseFrom there)) = Some 0"
    by (simp add: dialed_eq refuseFrom_def)
  have e: "Connections answered (Origin (refuseFrom there)) = Some 0"
    by (simp add: answered_eq refuseFrom_def)
  have r: "upd dialed 0 (\<lambda>k. k\<lparr>state := Standby\<rparr>) = refused"
    by (simp add: dialed_eq refused_eq upd_def)
  have st: "state (conns dialed 0) = Ringing" "state (conns answered 0) = InCall"
    "state (conns refused 0) = Standby" "peer (conns refused 0) = peer (conns dialed 0)"
    by (simp_all add: dialed_eq answered_eq refused_eq ringingConnection_def)
  from Refuse_resets_only_Ringing [OF d a, of allSucceed]
       Refuse_resets_only_Ringing [OF e a, of allSucceed] r st
  show ?thesis by (simp add: Println_def refuseFrom_def there_def)
qed

subsection \<open>Closing twice\<close>




subsection \<open>Faults while streaming\<close>




subsection \<open>An offer while busy\<close>

text \<open>
  C10. An \<open>Offer\<close> from an address whose Connection is not in \<open>Standby\<close> is dropped
  locally: the world is returned unchanged and the only event is the diagnostic line, so
  the trace holds no post at all, neither a description (no \<open>Refuse\<close>) nor a
  candidate. Delivering the posts of that trace to any other process \<open>x\<close>, whatever
  its decoder does, therefore runs none of its handlers and leaves it as it was: the
  Connection of the offering peer stays in \<open>Ringing\<close>.
\<close>

theorem busy_Offer_is_dropped_locally:
  assumes "Connections w (Origin s) = Some p" and "Action s = Offer"
    and "state (conns w p) \<noteq> Standby"
  shows "httpHandleSDP env w (Inr s) =
           (w, [Println [''answering incoming call from'', Origin s, ''but we are busy'']]) \<and>
         descriptionsPosted (snd (httpHandleSDP env w (Inr s))) = [] \<and>
         candidatesPosted (snd (httpHandleSDP env w (Inr s))) = [] \<and>
         deliver envx dec x (snd (httpHandleSDP env w (Inr s))) = (x, [])"
  using assms by (simp add: httpHandleSDP_def lookupOrCreate_def actionGuard_def Println_def)

theorem busy_Offer_is_dropped_locally_witness:
  "state (conns listening 0) = InCall \<and>
   httpHandleSDP allSucceed listening (Inr (offerFrom here)) =
     (listening, [Log ''answering incoming call from localhost:8001 but we are busy'']) \<and>
   deliver allSucceed (\<lambda>b. None) dialed
     (snd (httpHandleSDP allSucceed listening (Inr (offerFrom here)))) = (dialed, []) \<and>
   Connections dialed there = Some 0 \<and> state (conns dialed 0) = Ringing"
proof -
  have a: "Action (offerFrom here) = Offer" by (simp add: offerFrom_def)
  have e: "Connections listening (Origin (offerFrom here)) = Some 0"
    by (simp add: listening_eq offerFrom_def)
  have st: "state (conns listening 0) \<noteq> Standby" "state (conns listening 0) = InCall"
    "state (conns dialed 0) = Ringing" "Connections dialed there = Some 0"
    by (simp_all add: dialed_eq listening_eq ringingConnection_def listeningConnection_def)
  from busy_Offer_is_dropped_locally
         [OF e a st(1), of allSucceed allSucceed "\<lambda>b. None" dialed] st
  show ?thesis by (simp add: Println_def offerFrom_def here_def)
qed

end
